theory Spec2Isabelle
  imports Complex_Main "HOL-Library.Word"
begin

section \<open>JavaScript values\<close>

text \<open>
  The values that \<^verbatim>\<open>server.js\<close> handles at run time: what \<^verbatim>\<open>JSON.parse\<close>
  returns, what a property read yields, what \<^verbatim>\<open>res.json\<close> and \<^verbatim>\<open>ws.send\<close> are
  given. Strings are lists of characters, numbers are the (finite) numbers they denote, an
  object is the list of its own properties. \<^verbatim>\<open>JUndefined\<close> is what reading an absent
  property yields; \<^verbatim>\<open>JSON.parse\<close> never returns it. The calls of the logger are left
  out: they write to the console and to the log file and send nothing.
\<close>

datatype jsval =
    JUndefined
  | JNull
  | JBool bool
  | JNumber rat
  | JString string
  | JArray "jsval list"
  | JObject "(string \<times> jsval) list"

text \<open>
  The exceptions the handlers can catch, with what \<^verbatim>\<open>error.message\<close> depends on:
  \<open>UpstreamStatus\<close> is the \<^verbatim>\<open>LLaMA server responded with ${response.status}\<close> of the
  source, \<open>Rejected\<close> a rejected \<^verbatim>\<open>fetch\<close> or \<^verbatim>\<open>reader.read()\<close>, \<open>IoError\<close> what
  \<^verbatim>\<open>readdirSync\<close> or \<^verbatim>\<open>statSync\<close> throws, \<open>PayloadTooLarge\<close> what the body
  parser raises above its limit.
\<close>

datatype js_error =
    SyntaxError
  | TypeError
  | UpstreamStatus nat
  | Rejected string
  | IoError string
  | PayloadTooLarge

text \<open>
  \<^verbatim>\<open>v.k\<close>: reading a property of \<^verbatim>\<open>undefined\<close> or \<^verbatim>\<open>null\<close> throws a TypeError;
  an object yields its own property or \<^verbatim>\<open>undefined\<close>; a string or an array has a
  \<^verbatim>\<open>length\<close>; every other read yields \<^verbatim>\<open>undefined\<close>. The server reads only the
  keys \<^verbatim>\<open>type\<close>, \<^verbatim>\<open>message\<close>, \<^verbatim>\<open>maxTokens\<close>, \<^verbatim>\<open>temperature\<close>, \<^verbatim>\<open>content\<close>,
  \<^verbatim>\<open>tokens_used\<close> and \<^verbatim>\<open>length\<close>, none of which the built-in prototypes define
  apart from \<^verbatim>\<open>length\<close>.
\<close>

fun get_prop :: "jsval \<Rightarrow> string \<Rightarrow> js_error + jsval" where
  "get_prop JUndefined k = Inl TypeError"
| "get_prop JNull k = Inl TypeError"
| "get_prop (JObject kvs) k = (case map_of kvs k of None \<Rightarrow> Inr JUndefined | Some v \<Rightarrow> Inr v)"
| "get_prop (JString s) k = (if k = ''length'' then Inr (JNumber (of_nat (length s))) else Inr JUndefined)"
| "get_prop (JArray vs) k = (if k = ''length'' then Inr (JNumber (of_nat (length vs))) else Inr JUndefined)"
| "get_prop (JBool b) k = Inr JUndefined"
| "get_prop (JNumber n) k = Inr JUndefined"

text \<open>The truth value of \<^verbatim>\<open>v\<close> in \<^verbatim>\<open>if (v)\<close> and \<^verbatim>\<open>v || d\<close>.\<close>

fun truthy :: "jsval \<Rightarrow> bool" where
  "truthy JUndefined = False"
| "truthy JNull = False"
| "truthy (JBool b) = b"
| "truthy (JNumber n) = (n \<noteq> 0)"
| "truthy (JString s) = (s \<noteq> [])"
| "truthy (JArray vs) = True"
| "truthy (JObject kvs) = True"

text \<open>\<^verbatim>\<open>a || b\<close>.\<close>

definition js_or :: "jsval \<Rightarrow> jsval \<Rightarrow> jsval" where
  "js_or a b = (if truthy a then a else b)"


text \<open>A destructuring default, \<^verbatim>\<open>const { k = d } = o\<close>: it applies to \<^verbatim>\<open>undefined\<close> only.\<close>

definition default_to :: "jsval \<Rightarrow> jsval \<Rightarrow> jsval" where
  "default_to d v = (if v = JUndefined then d else v)"

text \<open>
  \<^verbatim>\<open>JSON.parse\<close> belongs to the runtime, not to this repository: every definition below
  that calls it takes it as the parameter \<open>parse\<close>, with \<open>None\<close> for a thrown SyntaxError.
\<close>

type_synonym json_parser = "string \<Rightarrow> jsval option"

section \<open>The streaming relay: one chunk of the upstream event stream\<close>

text \<open>The messages the server sends on a WebSocket (\<^verbatim>\<open>ws.send(JSON.stringify(...))\<close>).\<close>

datatype ws_message =
    Info
  | Token jsval
  | Done
  | ErrorMsg js_error
  | Ping

text \<open>\<^verbatim>\<open>chunk.split('\n')\<close>: the pieces between newlines, at least one.\<close>

fun split_lines :: "string \<Rightarrow> string list" where
  "split_lines [] = [[]]"
| "split_lines (c # cs) =
     (if c = CHR 0x0A then [] # split_lines cs
      else (case split_lines cs of [] \<Rightarrow> [[c]] | l # ls \<Rightarrow> (c # l) # ls))"

text \<open>\<^verbatim>\<open>line.startsWith(p)\<close>.\<close>

definition starts_with :: "string \<Rightarrow> string \<Rightarrow> bool" where
  "starts_with p line = (take (length p) line = p)"

text \<open>
  The body of the \<^verbatim>\<open>forEach\<close> callback (server.js 204-225) on one line: the messages
  it sends. The \<^verbatim>\<open>return\<close> after \<^verbatim>\<open>done\<close> leaves the callback only; the
  \<^verbatim>\<open>catch\<close> around \<^verbatim>\<open>JSON.parse\<close> and the read of \<^verbatim>\<open>content\<close> logs and sends
  nothing.
\<close>

definition stream_line :: "json_parser \<Rightarrow> string \<Rightarrow> ws_message list" where
  "stream_line parse line =
     (if starts_with ''data: '' line then
        (let dataStr = drop 6 line in
         if dataStr = ''[DONE]'' then [Done]
         else (case parse dataStr of
                 None \<Rightarrow> []
               | Some jsonData \<Rightarrow>
                   (case get_prop jsonData ''content'' of
                      Inl e \<Rightarrow> []
                    | Inr tok \<Rightarrow> if truthy tok then [Token tok] else [])))
      else [])"

text \<open>\<^verbatim>\<open>chunk.split('\n').forEach(...)\<close>: the lines of one chunk, in order.\<close>

definition stream_chunk :: "json_parser \<Rightarrow> string \<Rightarrow> ws_message list" where
  "stream_chunk parse chunk = concat (map (stream_line parse) (split_lines chunk))"

text \<open>
  The \<^verbatim>\<open>while (true)\<close> loop (server.js 196-226) over the chunks that
  \<^verbatim>\<open>reader.read()\<close> yields before it reports \<^verbatim>\<open>done\<close>: each chunk is decoded and
  processed on its own, nothing is carried from one chunk to the next.
\<close>

definition stream_loop :: "json_parser \<Rightarrow> string list \<Rightarrow> ws_message list" where
  "stream_loop parse chunks = concat (map (stream_chunk parse) chunks)"

section \<open>The streaming relay: the message handler of one connection\<close>

text \<open>
  The body that \<^verbatim>\<open>JSON.stringify\<close> builds for \<^verbatim>\<open>POST /completion\<close>. A field whose
  value is \<^verbatim>\<open>undefined\<close> is left out by \<^verbatim>\<open>JSON.stringify\<close>. The literal
  \<^verbatim>\<open>0.7\<close> is written as the rational it prints as.
\<close>

record completion_request =
  prompt :: jsval
  n_predict :: jsval
  temperature :: jsval
  stream :: bool

text \<open>
  The request of a \<^verbatim>\<open>chat\<close> message (server.js 184-189). \<open>data\<close> is neither
  \<^verbatim>\<open>undefined\<close> nor \<^verbatim>\<open>null\<close> where the source builds it, since \<^verbatim>\<open>data.type\<close>
  has been read before; the error branches are kept all the same.
\<close>

definition chat_request :: "jsval \<Rightarrow> js_error + completion_request" where
  "chat_request data =
     (case get_prop data ''message'' of
        Inl e \<Rightarrow> Inl e
      | Inr msg \<Rightarrow>
          (case get_prop data ''maxTokens'' of
             Inl e \<Rightarrow> Inl e
           | Inr maxTokens \<Rightarrow>
               (case get_prop data ''temperature'' of
                  Inl e \<Rightarrow> Inl e
                | Inr temp \<Rightarrow>
                    Inr \<lparr>prompt = msg,
                         n_predict = js_or maxTokens (JNumber 200),
                         temperature = js_or temp (JNumber (7 / 10)),
                         stream = True\<rparr>)))"

text \<open>
  The handler of \<^verbatim>\<open>ws.on('message')\<close> is an \<^verbatim>\<open>async\<close> function: it is suspended
  at \<^verbatim>\<open>await fetch(...)\<close> and at every \<^verbatim>\<open>await reader.read()\<close>, and the event
  loop runs other handlers of the same connection in between. An activation of the handler
  is therefore either waiting for its \<^verbatim>\<open>fetch\<close> or reading its stream.
\<close>

datatype activation = AwaitFetch completion_request | Reading

datatype ready_state = CONNECTING | OPEN | CLOSING | CLOSED

text \<open>
  One \<^verbatim>\<open>ws\<close> object with the closure of its \<^verbatim>\<open>connection\<close> callback:
  \<open>outbox\<close> is what \<^verbatim>\<open>ws.send\<close> has been given, oldest first; \<open>activations\<close> are the
  suspended activations of the message handler, numbered in the order they started.
\<close>

record connection =
  readyState :: ready_state
  outbox :: "ws_message list"
  activations :: "(nat \<times> activation) list"
  started :: nat

text \<open>What an awaited \<^verbatim>\<open>fetch\<close> settles with: a rejection, or a response with its status.\<close>

datatype fetch_result = FetchRejected string | Response nat

text \<open>
  What an awaited \<^verbatim>\<open>reader.read()\<close> settles with: a chunk (already decoded by
  \<^verbatim>\<open>TextDecoder\<close>), the end of the stream (\<^verbatim>\<open>done\<close>), or a rejection.
\<close>

datatype read_result = Chunk string | EndOfStream | ReadRejected string

text \<open>What the event loop hands to the connection's message handler and its activations.\<close>

datatype loop_event =
    Message string
  | FetchSettled nat fetch_result
  | ReadSettled nat read_result

text \<open>\<^verbatim>\<open>response.ok\<close>.\<close>

definition response_ok :: "nat \<Rightarrow> bool" where
  "response_ok status = (200 \<le> status \<and> status \<le> 299)"

text \<open>
  Among the statuses with \<^verbatim>\<open>response.ok\<close>, 204 and 205 give a response whose
  \<^verbatim>\<open>body\<close> is \<^verbatim>\<open>null\<close>, on which \<^verbatim>\<open>response.body.getReader()\<close> throws a
  TypeError.
\<close>

definition null_body :: "nat \<Rightarrow> bool" where
  "null_body status = (status = 204 \<or> status = 205)"

definition send :: "ws_message list \<Rightarrow> connection \<Rightarrow> connection" where
  "send ms c = c\<lparr>outbox := outbox c @ ms\<rparr>"

text \<open>An activation that returns or throws is gone.\<close>

definition finish :: "nat \<Rightarrow> connection \<Rightarrow> connection" where
  "finish i c = c\<lparr>activations := filter (\<lambda>(j, a). j \<noteq> i) (activations c)\<rparr>"

definition resume :: "nat \<Rightarrow> activation \<Rightarrow> connection \<Rightarrow> connection" where
  "resume i a c =
     c\<lparr>activations := map (\<lambda>(j, b). if j = i then (j, a) else (j, b)) (activations c)\<rparr>"

text \<open>
  The handler up to its first \<^verbatim>\<open>await\<close> (server.js 175-190): a message that is not
  JSON, or whose \<^verbatim>\<open>type\<close> cannot be read, ends in the \<^verbatim>\<open>catch\<close>, which sends an
  \<^verbatim>\<open>error\<close> message; a \<^verbatim>\<open>chat\<close> message starts a \<^verbatim>\<open>fetch\<close>; for every other
  message the handler returns without doing anything.
\<close>

definition on_message :: "json_parser \<Rightarrow> string \<Rightarrow> connection \<Rightarrow> connection" where
  "on_message parse message c =
     (case parse message of
        None \<Rightarrow> send [ErrorMsg SyntaxError] c
      | Some data \<Rightarrow>
          (case get_prop data ''type'' of
             Inl e \<Rightarrow> send [ErrorMsg e] c
           | Inr t \<Rightarrow>
               if t = JString ''chat'' then
                 (case chat_request data of
                    Inl e \<Rightarrow> send [ErrorMsg e] c
                  | Inr rq \<Rightarrow>
                      c\<lparr>activations := activations c @ [(started c, AwaitFetch rq)],
                        started := Suc (started c)\<rparr>)
               else c))"

text \<open>
  One turn of the event loop for this connection (server.js 175-235). An event for an
  activation that does not wait for it cannot occur and changes nothing.
\<close>

definition step :: "json_parser \<Rightarrow> connection \<Rightarrow> loop_event \<Rightarrow> connection" where
  "step parse c ev =
     (case ev of
        Message message \<Rightarrow> on_message parse message c
      | FetchSettled i r \<Rightarrow>
          (case map_of (activations c) i of
             Some (AwaitFetch rq) \<Rightarrow>
               (case r of
                  FetchRejected msg \<Rightarrow> send [ErrorMsg (Rejected msg)] (finish i c)
                | Response status \<Rightarrow>
                    if response_ok status then
                      (if null_body status then send [ErrorMsg TypeError] (finish i c)
                       else resume i Reading c)
                    else send [ErrorMsg (UpstreamStatus status)] (finish i c))
           | _ \<Rightarrow> c)
      | ReadSettled i r \<Rightarrow>
          (case map_of (activations c) i of
             Some Reading \<Rightarrow>
               (case r of
                  Chunk chunk \<Rightarrow> send (stream_chunk parse chunk) c
                | EndOfStream \<Rightarrow> finish i c
                | ReadRejected msg \<Rightarrow> send [ErrorMsg (Rejected msg)] (finish i c))
           | _ \<Rightarrow> c))"

definition run :: "json_parser \<Rightarrow> connection \<Rightarrow> loop_event list \<Rightarrow> connection" where
  "run parse c evs = foldl (step parse) c evs"

text \<open>A connection as \<^verbatim>\<open>wss.on('connection')\<close> leaves it: open, the welcome message sent.\<close>

definition new_connection :: connection where
  "new_connection = \<lparr>readyState = OPEN, outbox = [Info], activations = [], started = 0\<rparr>"

section \<open>The connection registry and the heartbeat\<close>

text \<open>
  \<open>clients\<close> holds the \<^verbatim>\<open>ws\<close> objects by the \<^verbatim>\<open>clientId\<close> of their closure (the
  identifiers are taken to be distinct), \<open>activeConnections\<close> the keys of the Map of that
  name in insertion order, \<open>heartbeats\<close> the identifiers whose \<^verbatim>\<open>setInterval\<close> timer
  is armed.
\<close>

record server =
  clients :: "(string \<times> connection) list"
  activeConnections :: "string list"
  heartbeats :: "string list"

definition modify_client :: "string \<Rightarrow> (connection \<Rightarrow> connection) \<Rightarrow> server \<Rightarrow> server" where
  "modify_client clientId f srv =
     srv\<lparr>clients := map (\<lambda>(k, c). if k = clientId then (k, f c) else (k, c)) (clients srv)\<rparr>"

text \<open>\<^verbatim>\<open>wss.on('connection')\<close> (server.js 158-173, 247-251).\<close>

definition on_connection :: "string \<Rightarrow> server \<Rightarrow> server" where
  "on_connection clientId srv =
     \<lparr>clients = filter (\<lambda>(k, c). k \<noteq> clientId) (clients srv) @ [(clientId, new_connection)],
      activeConnections =
        (if clientId \<in> set (activeConnections srv) then activeConnections srv
         else activeConnections srv @ [clientId]),
      heartbeats = heartbeats srv @ [clientId]\<rparr>"

text \<open>The two \<^verbatim>\<open>ws.on('close')\<close> handlers (server.js 237-240, 253-255).\<close>

definition on_close :: "string \<Rightarrow> server \<Rightarrow> server" where
  "on_close clientId srv =
     srv\<lparr>activeConnections := filter (\<lambda>k. k \<noteq> clientId) (activeConnections srv),
         heartbeats := filter (\<lambda>k. k \<noteq> clientId) (heartbeats srv)\<rparr>"

text \<open>The callback of the connection's \<^verbatim>\<open>setInterval\<close> (server.js 247-251).\<close>

definition heartbeat :: "string \<Rightarrow> server \<Rightarrow> server" where
  "heartbeat clientId srv =
     modify_client clientId (\<lambda>ws. if readyState ws = OPEN then send [Ping] ws else ws) srv"

text \<open>
  There is no broadcast in the source: every connection has a timer of its own. All armed
  timers firing once, in the order they were armed:
\<close>

definition heartbeat_round :: "server \<Rightarrow> server" where
  "heartbeat_round srv = fold heartbeat (heartbeats srv) srv"

text \<open>The pings among the messages a connection has been sent.\<close>

definition pings :: "connection \<Rightarrow> nat" where
  "pings ws = count_list (outbox ws) Ping"

definition pings_sent :: "server \<Rightarrow> nat" where
  "pings_sent srv = sum_list (map (\<lambda>(k, ws). pings ws) (clients srv))"

section \<open>The HTTP API\<close>

text \<open>
  What a handler answers: \<^verbatim>\<open>res.json(v)\<close>, or \<^verbatim>\<open>res.status(n).json({ error:
  error.message })\<close> for the error caught.
\<close>

datatype 'a http_response = Json200 'a | Failed nat js_error

subsection \<open>\<^verbatim>\<open>POST /api/chat\<close>\<close>

text \<open>
  What \<^verbatim>\<open>fetch\<close> followed by \<^verbatim>\<open>response.json()\<close> gives: a rejected \<^verbatim>\<open>fetch\<close>,
  or the body parsed (\<open>None\<close> when it is not JSON). The handler does not look at the status.
\<close>

datatype completion_reply = Unreachable string | Replied "jsval option"

text \<open>server.js 278-310; \<open>body\<close> is \<^verbatim>\<open>req.body\<close>.\<close>

definition api_chat ::
  "(completion_request \<Rightarrow> completion_reply) \<Rightarrow> jsval \<Rightarrow> jsval http_response" where
  "api_chat fetch body =
     (case get_prop body ''message'' of
        Inl e \<Rightarrow> Failed 500 e
      | Inr message \<Rightarrow>
     (case get_prop body ''maxTokens'' of
        Inl e \<Rightarrow> Failed 500 e
      | Inr maxTokens \<Rightarrow>
     (case get_prop body ''temperature'' of
        Inl e \<Rightarrow> Failed 500 e
      | Inr temp \<Rightarrow>
     (case get_prop message ''length'' of
        Inl e \<Rightarrow> Failed 500 e
      | Inr messageLength \<Rightarrow>
     (case fetch \<lparr>prompt = message,
                  n_predict = default_to (JNumber 200) maxTokens,
                  temperature = default_to (JNumber (7 / 10)) temp,
                  stream = False\<rparr> of
        Unreachable msg \<Rightarrow> Failed 500 (Rejected msg)
      | Replied None \<Rightarrow> Failed 500 SyntaxError
      | Replied (Some data) \<Rightarrow>
     (case get_prop data ''tokens_used'' of
        Inl e \<Rightarrow> Failed 500 e
      | Inr tokens_used \<Rightarrow>
     (case get_prop data ''content'' of
        Inl e \<Rightarrow> Failed 500 e
      | Inr text \<Rightarrow>
          Json200 (JObject [(''response'', text), (''tokens_used'', tokens_used)]))))))))"

subsection \<open>\<^verbatim>\<open>GET /api/models\<close>\<close>

record model_entry =
  name :: string
  path :: string
  size_bytes :: nat
  sizeMB :: int

text \<open>\<^verbatim>\<open>file.endsWith(suffix)\<close>.\<close>

definition ends_with :: "string \<Rightarrow> string \<Rightarrow> bool" where
  "ends_with suffix file =
     (length suffix \<le> length file \<and> drop (length file - length suffix) file = suffix)"

text \<open>
  \<^verbatim>\<open>Math.round\<close>: the nearest integer, a tie going up. The division
  \<^verbatim>\<open>stats.size / (1024 * 1024)\<close> is by a power of two, which floating point does
  exactly for every size below \<open>2\<^sup>5\<^sup>3\<close>.
\<close>

definition Math_round :: "rat \<Rightarrow> int" where
  "Math_round x = \<lfloor>x + 1 / 2\<rfloor>"

definition entry :: "string \<Rightarrow> nat \<Rightarrow> model_entry" where
  "entry file sz =
     \<lparr>name = file,
      path = ''./../models/'' @ file,
      size_bytes = sz,
      sizeMB = Math_round (of_nat sz / (1024 * 1024))\<rparr>"

text \<open>
  The \<^verbatim>\<open>files.forEach\<close> of server.js 342-352: \<^verbatim>\<open>statSync\<close> may throw, which ends
  the loop.
\<close>

fun collect_models :: "(string \<Rightarrow> js_error + nat) \<Rightarrow> string list \<Rightarrow> js_error + model_entry list" where
  "collect_models statSync [] = Inr []"
| "collect_models statSync (file # files) =
     (if ends_with ''.gguf'' file then
        (case statSync file of
           Inl e \<Rightarrow> Inl e
         | Inr sz \<Rightarrow>
             (case collect_models statSync files of
                Inl e \<Rightarrow> Inl e
              | Inr models \<Rightarrow> Inr (entry file sz # models)))
      else collect_models statSync files)"

text \<open>
  server.js 335-360. The file system is what the three calls return: \<^verbatim>\<open>existsSync\<close>
  (which never throws), \<^verbatim>\<open>readdirSync\<close> and \<^verbatim>\<open>statSync\<close> (the size in bytes).
\<close>

definition api_models ::
  "bool \<Rightarrow> js_error + string list \<Rightarrow> (string \<Rightarrow> js_error + nat) \<Rightarrow> model_entry list http_response" where
  "api_models existsSync readdirSync statSync =
     (if existsSync then
        (case readdirSync of
           Inl e \<Rightarrow> Failed 500 e
         | Inr files \<Rightarrow>
             (case collect_models statSync files of
                Inl e \<Rightarrow> Failed 500 e
              | Inr models \<Rightarrow> Json200 models))
      else Json200 [])"

subsection \<open>\<^verbatim>\<open>POST /api/upload\<close>\<close>






record upload_reply =
  success :: bool
  filename :: string
  size_chars :: nat
  content :: string









section \<open>Reference notions and example inputs\<close>

text \<open>A chunk made of whole lines: every line is followed by its newline.\<close>

definition whole_lines :: "string list \<Rightarrow> string" where
  "whole_lines ls = concat (map (\<lambda>l. l @ [CHR 0x0A]) ls)"

text \<open>The payloads of the \<^verbatim>\<open>data: \<close> lines among \<open>ls\<close>, in order.\<close>

definition payloads :: "string list \<Rightarrow> string list" where
  "payloads ls = map (drop 6) (filter (starts_with ''data: '') ls)"

text \<open>
  The generated text that a payload carries: the \<^verbatim>\<open>content\<close> of the JSON value it
  parses to, when there is one and it is truthy.
\<close>

definition payload_content :: "json_parser \<Rightarrow> string \<Rightarrow> jsval option" where
  "payload_content parse p =
     (case parse p of
        None \<Rightarrow> None
      | Some v \<Rightarrow>
          (case get_prop v ''content'' of
             Inl e \<Rightarrow> None
           | Inr c \<Rightarrow> if truthy c then Some c else None))"

text \<open>
  What \<^verbatim>\<open>JSON.parse\<close> returns on the texts of the examples below; it throws on the
  other texts that the examples hand to it (\<^verbatim>\<open>{oops\<close> and \<^verbatim>\<open>not json\<close>).
\<close>

definition example_texts :: "(string \<times> jsval) list" where
  \<open>example_texts =
     [(''{"content":"a"}'', JObject [(''content'', JString ''a'')]),
      (''{"content":"b"}'', JObject [(''content'', JString ''b'')]),
      (''{"type":"chat","message":"hi"}'',
         JObject [(''type'', JString ''chat''), (''message'', JString ''hi'')]),
      (''{"type":"stop"}'', JObject [(''type'', JString ''stop'')]),
      (''{"message":"hi"}'', JObject [(''message'', JString ''hi'')])]\<close>

definition example_parse :: json_parser where
  "example_parse = map_of example_texts"

text \<open>A connection with one generation in the Streaming state.\<close>

definition streaming_connection :: connection where
  "streaming_connection =
     \<lparr>readyState = OPEN, outbox = [Info], activations = [(0, Reading)], started = 1\<rparr>"

text \<open>
  A \<^verbatim>\<open>chat\<close> message, the beginning of its generation, and the same session after a second
  \<^verbatim>\<open>chat\<close> message.
\<close>

definition chat_session :: "loop_event list" where
  \<open>chat_session =
     [Message ''{"type":"chat","message":"hi"}'',
      FetchSettled 0 (Response 200),
      ReadSettled 0 (Chunk ''data: {"content":"a"}\<newline>'')]\<close>

definition two_chats_session :: "loop_event list" where
  \<open>two_chats_session =
     [Message ''{"type":"chat","message":"hi"}'',
      FetchSettled 0 (Response 200),
      Message ''{"type":"chat","message":"hi"}'']\<close>

text \<open>
  A registry after two connections have been accepted, the second of which has left the open
  state (\<open>rs\<close>) while its \<^verbatim>\<open>close\<close> event has not been handled yet.
\<close>

definition example_server :: "ready_state \<Rightarrow> server" where
  "example_server rs =
     modify_client ''b'' (\<lambda>ws. ws\<lparr>readyState := rs\<rparr>)
       (on_connection ''b''
          (on_connection ''a'' \<lparr>clients = [], activeConnections = [], heartbeats = []\<rparr>))"

text \<open>A models directory: two model files of 1.5 MiB and 3 MiB + 100 bytes, and a text file.\<close>

definition example_files :: "string list" where
  "example_files = [''a.gguf'', ''notes.txt'', ''b.gguf'']"

definition example_stat :: "string \<Rightarrow> js_error + nat" where
  "example_stat file =
     (if file = ''a.gguf'' then Inr 1572864
      else if file = ''b.gguf'' then Inr 3145828
      else if file = ''notes.txt'' then Inr 5
      else Inl (IoError ''ENOENT''))"

text \<open>A stub of the completion endpoint, and a decoder for bodies of 7-bit characters.\<close>

definition example_fetch :: "completion_request \<Rightarrow> completion_reply" where
  "example_fetch rq =
     Replied (Some (JObject [(''content'', JString ''hello''), (''tokens_used'', JNumber 3)]))"




section \<open>Lemmas\<close>

lemma starts_with_iff: "starts_with p l \<longleftrightarrow> (\<exists>r. l = p @ r)"
proof
  assume "starts_with p l"
  then have "l = p @ drop (length p) l"
    by (metis append_take_drop_id starts_with_def)
  then show "\<exists>r. l = p @ r" ..
next
  assume "\<exists>r. l = p @ r"
  then show "starts_with p l" by (auto simp: starts_with_def)
qed

lemma split_lines_line:
  "CHR 0x0A \<notin> set l \<Longrightarrow> split_lines (l @ CHR 0x0A # rest) = l # split_lines rest"
  by (induction l) (auto split: list.splits)

lemma split_lines_whole:
  "\<forall>l \<in> set ls. CHR 0x0A \<notin> set l \<Longrightarrow> split_lines (whole_lines ls) = ls @ [[]]"
  by (induction ls) (auto simp: whole_lines_def split_lines_line)

lemma stream_line_Nil: "stream_line parse [] = []"
  by (simp add: stream_line_def starts_with_def)

lemma stream_chunk_whole:
  "\<forall>l \<in> set ls. CHR 0x0A \<notin> set l \<Longrightarrow>
   stream_chunk parse (whole_lines ls) = concat (map (stream_line parse) ls)"
  by (simp add: stream_chunk_def split_lines_whole stream_line_Nil)

lemma stream_loop_whole:
  "\<forall>g \<in> set groups. \<forall>l \<in> set g. CHR 0x0A \<notin> set l \<Longrightarrow>
   stream_loop parse (map whole_lines groups) = concat (map (stream_line parse) (concat groups))"
  by (induction groups) (auto simp: stream_loop_def stream_chunk_whole)

lemma stream_line_payload:
  "starts_with ''data: '' l \<Longrightarrow> drop 6 l \<noteq> ''[DONE]'' \<Longrightarrow>
   stream_line parse l =
     (case payload_content parse (drop 6 l) of None \<Rightarrow> [] | Some c \<Rightarrow> [Token c])"
  by (auto simp: stream_line_def payload_content_def split: option.splits sum.splits)

lemma stream_line_other: "\<not> starts_with ''data: '' l \<Longrightarrow> stream_line parse l = []"
  by (simp add: stream_line_def)

lemma stream_line_sentinel: "stream_line parse ''data: [DONE]'' = [Done]"
  by (simp add: stream_line_def starts_with_def)

lemma stream_lines_tokens:
  "\<forall>l \<in> set ls. starts_with ''data: '' l \<longrightarrow> drop 6 l \<noteq> ''[DONE]'' \<Longrightarrow>
   concat (map (stream_line parse) ls) =
     map Token (List.map_filter (payload_content parse) (payloads ls))"
proof (induction ls)
  case Nil
  then show ?case by (simp add: payloads_def List.map_filter_simps)
next
  case (Cons l ls)
  then have IH: "concat (map (stream_line parse) ls) =
      map Token (List.map_filter (payload_content parse) (payloads ls))"
    by simp
  show ?case
  proof (cases "starts_with ''data: '' l")
    case True
    with Cons.prems have "drop 6 l \<noteq> ''[DONE]''" by simp
    with True have "stream_line parse l =
        (case payload_content parse (drop 6 l) of None \<Rightarrow> [] | Some c \<Rightarrow> [Token c])"
      by (rule stream_line_payload)
    moreover from True have "payloads (l # ls) = drop 6 l # payloads ls"
      by (simp add: payloads_def)
    ultimately show ?thesis using IH
      by (simp add: List.map_filter_simps split: option.splits)
  next
    case False
    then have "stream_line parse l = []" by (rule stream_line_other)
    moreover from False have "payloads (l # ls) = payloads ls"
      by (simp add: payloads_def)
    ultimately show ?thesis using IH by simp
  qed
qed

lemma stream_lines_silent:
  "\<forall>l \<in> set ls. \<not> starts_with ''data: '' l \<Longrightarrow> concat (map (stream_line parse) ls) = []"
  by (induction ls) (auto simp: stream_line_other)

lemma get_prop_total: "get_prop v k = Inr x \<Longrightarrow> \<exists>y. get_prop v k' = Inr y"
  by (cases v) (auto split: option.splits)

lemma chat_request_total:
  assumes "get_prop data ''type'' = Inr t"
  shows "\<exists>rq. chat_request data = Inr rq"
proof -
  obtain m where m: "get_prop data ''message'' = Inr m"
    using get_prop_total [OF assms] by blast
  obtain n where n: "get_prop data ''maxTokens'' = Inr n"
    using get_prop_total [OF assms] by blast
  obtain u where u: "get_prop data ''temperature'' = Inr u"
    using get_prop_total [OF assms] by blast
  show ?thesis by (simp add: chat_request_def m n u)
qed

lemma heartbeat_registry:
  "activeConnections (heartbeat k srv) = activeConnections srv \<and>
   heartbeats (heartbeat k srv) = heartbeats srv"
  by (simp add: heartbeat_def modify_client_def)

lemma fold_heartbeat_registry:
  "activeConnections (fold heartbeat ks srv) = activeConnections srv \<and>
   heartbeats (fold heartbeat ks srv) = heartbeats srv"
  by (induction ks arbitrary: srv) (simp_all add: heartbeat_registry)

lemma collect_models_filter:
  "\<forall>f \<in> set files. ends_with ''.gguf'' f \<longrightarrow> statSync f = Inr (sz f) \<Longrightarrow>
   collect_models statSync files =
     Inr (map (\<lambda>f. entry f (sz f)) (filter (ends_with ''.gguf'') files))"
  by (induction files) auto

lemma collect_models_error:
  "f \<in> set files \<Longrightarrow> ends_with ''.gguf'' f \<Longrightarrow> statSync f = Inl e \<Longrightarrow>
   \<exists>e'. collect_models statSync files = Inl e'"
  by (induction files) (auto split: sum.splits)

lemma example_server_simps:
  "clients (example_server rs) =
     [(''a'', new_connection), (''b'', new_connection\<lparr>readyState := rs\<rparr>)]"
  "activeConnections (example_server rs) = [''a'', ''b'']"
  "heartbeats (example_server rs) = [''a'', ''b'']"
  by (simp_all add: example_server_def on_connection_def modify_client_def)

lemma Math_round_round: "Math_round x = round x"
  by (simp add: Math_round_def round_def)

lemma example_parse_simps:
  \<open>example_parse ''{"content":"a"}'' = Some (JObject [(''content'', JString ''a'')])\<close>
  \<open>example_parse ''{"content":"b"}'' = Some (JObject [(''content'', JString ''b'')])\<close>
  \<open>example_parse ''{"type":"chat","message":"hi"}'' =
     Some (JObject [(''type'', JString ''chat''), (''message'', JString ''hi'')])\<close>
  \<open>example_parse ''{"type":"stop"}'' = Some (JObject [(''type'', JString ''stop'')])\<close>
  \<open>example_parse ''{"message":"hi"}'' = Some (JObject [(''message'', JString ''hi'')])\<close>
  \<open>example_parse ''{oops'' = None\<close>
  \<open>example_parse ''not json'' = None\<close>
  by (simp_all add: example_parse_def example_texts_def)

lemma example_chunks:
  \<open>stream_chunk example_parse ''data: {"content":"a"}\<newline>'' = [Token (JString ''a'')]\<close>
  \<open>stream_chunk example_parse ''data: {"content":"b"}\<newline>'' = [Token (JString ''b'')]\<close>
  by (simp_all add: stream_chunk_def stream_line_def starts_with_def example_parse_simps)

section \<open>The streaming relay\<close>

text \<open>
  C1 (amended). For every sequence of chunks each made of whole lines, in which the line
  \<^verbatim>\<open>data: [DONE]\<close> is preceded by lines \<open>ls\<close> other than it and followed by no
  \<^verbatim>\<open>data: \<close> line, the stream loop sends one \<^verbatim>\<open>token\<close> message for every payload among
  \<open>ls\<close> that parses to a value with a truthy \<^verbatim>\<open>content\<close>, in the order of the payloads,
  and then one \<^verbatim>\<open>done\<close> message, which is the last message it sends.
\<close>

theorem relay_order:
  assumes nl: "\<forall>g \<in> set groups. \<forall>l \<in> set g. CHR 0x0A \<notin> set l"
    and cut: "concat groups = ls @ ''data: [DONE]'' # rest"
    and ls: "\<forall>l \<in> set ls. l \<noteq> ''data: [DONE]''"
    and rest: "\<forall>l \<in> set rest. \<not> starts_with ''data: '' l"
  shows "stream_loop parse (map whole_lines groups) =
           map Token (List.map_filter (payload_content parse) (payloads ls)) @ [Done]"
proof -
  have "\<forall>l \<in> set ls. starts_with ''data: '' l \<longrightarrow> drop 6 l \<noteq> ''[DONE]''"
  proof (intro ballI impI)
    fix l assume "l \<in> set ls" and sw: "starts_with ''data: '' l"
    with ls have neq: "l \<noteq> ''data: [DONE]''" by simp
    from sw obtain r where "l = ''data: '' @ r"
      unfolding starts_with_iff ..
    with neq show "drop 6 l \<noteq> ''[DONE]''" by auto
  qed
  then have body: "concat (map (stream_line parse) ls) =
      map Token (List.map_filter (payload_content parse) (payloads ls))"
    by (rule stream_lines_tokens)
  have "stream_loop parse (map whole_lines groups) =
      concat (map (stream_line parse) (concat groups))"
    using nl by (rule stream_loop_whole)
  also have "\<dots> =
      concat (map (stream_line parse) ls) @ [Done] @ concat (map (stream_line parse) rest)"
    by (simp add: cut stream_line_sentinel)
  also have "\<dots> = map Token (List.map_filter (payload_content parse) (payloads ls)) @ [Done]"
    using rest by (simp add: body stream_lines_silent)
  finally show ?thesis .
qed

theorem relay_order_witness:
  \<open>stream_loop example_parse
     [''data: {"content":"a"}\<newline>\<newline>data: {"content":"b"}\<newline>\<newline>'',
      ''data: [DONE]\<newline>\<newline>''] =
   [Token (JString ''a''), Token (JString ''b''), Done]\<close>
  using relay_order
    [of \<open>[[''data: {"content":"a"}'', '''', ''data: {"content":"b"}'', ''''],
          [''data: [DONE]'', '''']]\<close>
        \<open>[''data: {"content":"a"}'', '''', ''data: {"content":"b"}'', '''']\<close>
        \<open>['''']\<close> example_parse]
  by (simp add: whole_lines_def payloads_def payload_content_def starts_with_def
      List.map_filter_simps example_parse_simps)

text \<open>
  The claim as stated fails where a chunk boundary falls inside a line: the stream below ends
  with the sentinel line, and no \<^verbatim>\<open>done\<close> message is sent, whatever \<^verbatim>\<open>JSON.parse\<close> does.
\<close>

theorem relay_split_sentinel_counterexample:
  \<open>concat [''data: {"content":"a"}\<newline>'', ''data:'', '' [DONE]\<newline>''] =
     ''data: {"content":"a"}\<newline>data: [DONE]\<newline>'' \<and>
   (\<forall>parse. count_list
      (stream_loop parse [''data: {"content":"a"}\<newline>'', ''data:'', '' [DONE]\<newline>''])
      Done = 0)\<close>
  by (simp add: stream_loop_def stream_chunk_def stream_line_def starts_with_def
      split: option.splits sum.splits)

text \<open>
  C6. A \<^verbatim>\<open>data: \<close> line of a chunk whose payload is not the sentinel and does not parse sends
  nothing, neither an \<^verbatim>\<open>error\<close> nor a \<^verbatim>\<open>done\<close> message; the chunk sends what the lines
  before and the lines after that line send, and the generation stays in the Streaming state.
\<close>

theorem malformed_skipped:
  assumes "starts_with ''data: '' line"
    and "drop 6 line \<noteq> ''[DONE]''"
    and "parse (drop 6 line) = None"
    and "split_lines chunk = before @ line # after"
    and "map_of (activations c) i = Some Reading"
  shows "stream_line parse line = [] \<and>
         step parse c (ReadSettled i (Chunk chunk)) =
           send (concat (map (stream_line parse) before) @
                 concat (map (stream_line parse) after)) c \<and>
         activations (step parse c (ReadSettled i (Chunk chunk))) = activations c"
proof -
  have l: "stream_line parse line = []"
    using assms(1-3) by (simp add: stream_line_def)
  have s: "step parse c (ReadSettled i (Chunk chunk)) =
           send (concat (map (stream_line parse) before) @
                 concat (map (stream_line parse) after)) c"
    using assms(4,5) by (simp add: step_def stream_chunk_def l)
  have "activations (step parse c (ReadSettled i (Chunk chunk))) = activations c"
    by (simp add: s send_def)
  with l s show ?thesis by simp
qed

theorem malformed_skipped_witness:
  \<open>step example_parse streaming_connection
     (ReadSettled 0
        (Chunk ''data: {"content":"a"}\<newline>data: {oops\<newline>data: {"content":"b"}'')) =
   send [Token (JString ''a''), Token (JString ''b'')] streaming_connection\<close>
  using malformed_skipped
    [of \<open>''data: {oops''\<close> example_parse
        \<open>''data: {"content":"a"}\<newline>data: {oops\<newline>data: {"content":"b"}''\<close>
        \<open>[''data: {"content":"a"}'']\<close> \<open>[''data: {"content":"b"}'']\<close>
        streaming_connection 0]
  by (simp add: starts_with_def stream_line_def streaming_connection_def example_parse_simps)

text \<open>
  C2 (amended). A \<^verbatim>\<open>stop\<close> message, like every message that parses to a value whose
  \<^verbatim>\<open>type\<close> is not \<^verbatim>\<open>chat\<close>, is ignored by the relay: it sends nothing and changes
  nothing, so that a generation in the Streaming state stays there and the next chunk of its
  upstream is forwarded as if no \<^verbatim>\<open>stop\<close> had been sent.
\<close>

theorem stop_ignored:
  assumes "parse message = Some data"
    and "get_prop data ''type'' = Inr t"
    and "t \<noteq> JString ''chat''"
    and "map_of (activations c) i = Some Reading"
  shows "step parse c (Message message) = c \<and>
         step parse (step parse c (Message message)) (ReadSettled i (Chunk chunk)) =
           send (stream_chunk parse chunk) c"
  using assms by (simp add: step_def on_message_def)

theorem stop_ignored_witness:
  \<open>step example_parse streaming_connection (Message ''{"type":"stop"}'') =
     streaming_connection \<and>
   step example_parse
     (step example_parse streaming_connection (Message ''{"type":"stop"}''))
     (ReadSettled 0 (Chunk ''data: {"content":"b"}\<newline>'')) =
     send [Token (JString ''b'')] streaming_connection\<close>
  using stop_ignored
    [of example_parse \<open>''{"type":"stop"}''\<close> \<open>JObject [(''type'', JString ''stop'')]\<close>
        \<open>JString ''stop''\<close> streaming_connection 0 \<open>''data: {"content":"b"}\<newline>''\<close>]
  by (auto simp: streaming_connection_def example_parse_simps example_chunks)

text \<open>
  The claim as stated fails: after one token has been forwarded and a \<^verbatim>\<open>stop\<close> message
  has been processed, the generation is still in the Streaming state, and the token of the
  next chunk is sent to the connection.
\<close>

theorem stop_halts_counterexample:
  \<open>outbox (run example_parse new_connection (chat_session @ [Message ''{"type":"stop"}''])) =
     [Info, Token (JString ''a'')] \<and>
   activations (run example_parse new_connection (chat_session @ [Message ''{"type":"stop"}''])) =
     [(0, Reading)] \<and>
   outbox (run example_parse new_connection
      (chat_session @ [Message ''{"type":"stop"}'',
                       ReadSettled 0 (Chunk ''data: {"content":"b"}\<newline>'')])) =
     [Info, Token (JString ''a''), Token (JString ''b'')]\<close>
  by (simp add: run_def chat_session_def step_def on_message_def chat_request_def js_or_def
      new_connection_def send_def resume_def response_ok_def null_body_def example_parse_simps
      example_chunks)

text \<open>
  C3 (amended). The relay sets no limit of one generation per connection: a \<^verbatim>\<open>chat\<close>
  message is neither rejected nor ignored, whatever is in flight; it sends nothing and starts
  a further activation of the handler beside those there are, which it leaves as they are.
\<close>

theorem second_chat_starts:
  assumes "parse message = Some data"
    and "get_prop data ''type'' = Inr (JString ''chat'')"
  shows "\<exists>rq. chat_request data = Inr rq \<and>
           step parse c (Message message) =
             c\<lparr>activations := activations c @ [(started c, AwaitFetch rq)],
               started := Suc (started c)\<rparr>"
proof -
  obtain rq where "chat_request data = Inr rq"
    using chat_request_total [OF assms(2)] by blast
  then show ?thesis using assms by (auto simp: step_def on_message_def)
qed

theorem second_chat_starts_witness:
  \<open>\<exists>rq. step example_parse streaming_connection (Message ''{"type":"chat","message":"hi"}'') =
     streaming_connection\<lparr>activations := [(0, Reading), (1, AwaitFetch rq)], started := 2\<rparr>\<close>
  using second_chat_starts
    [of example_parse \<open>''{"type":"chat","message":"hi"}''\<close>
        \<open>JObject [(''type'', JString ''chat''), (''message'', JString ''hi'')]\<close>
        streaming_connection]
  by (auto simp: streaming_connection_def example_parse_simps)

text \<open>
  The claim as stated fails: a second \<^verbatim>\<open>chat\<close> message that arrives while a generation is
  in flight starts a second one and is not answered by any rejection; the tokens of both
  generations are then sent to the connection.
\<close>

theorem second_chat_rejected_counterexample:
  \<open>map fst (activations (run example_parse new_connection two_chats_session)) = [0, 1] \<and>
   outbox (run example_parse new_connection two_chats_session) = [Info] \<and>
   outbox (run example_parse new_connection
      (two_chats_session @
         [FetchSettled 1 (Response 200),
          ReadSettled 0 (Chunk ''data: {"content":"a"}\<newline>''),
          ReadSettled 1 (Chunk ''data: {"content":"b"}\<newline>'')])) =
     [Info, Token (JString ''a''), Token (JString ''b'')]\<close>
  by (simp add: run_def two_chats_session_def step_def on_message_def chat_request_def js_or_def
      new_connection_def send_def resume_def response_ok_def null_body_def example_parse_simps
      example_chunks)

text \<open>
  C9 (amended). \<^verbatim>\<open>POST /api/chat\<close> with a body that has no \<^verbatim>\<open>message\<close> is answered
  with status 500 and the message of the TypeError caught; a message on the persistent
  connection that is not JSON is answered with an \<^verbatim>\<open>error\<close> message. A message on the
  persistent connection that is JSON and has no \<^verbatim>\<open>type\<close> is not rejected: the handler
  returns without sending anything. None of the three leaves the handler by an exception.
\<close>

theorem invalid_rejected:
  "(get_prop body ''message'' = Inr JUndefined \<longrightarrow> api_chat fetch body = Failed 500 TypeError) \<and>
   (parse message = None \<longrightarrow> step parse c (Message message) = send [ErrorMsg SyntaxError] c) \<and>
   (parse message = Some data \<longrightarrow> get_prop data ''type'' = Inr JUndefined \<longrightarrow>
      step parse c (Message message) = c)"
proof (intro conjI impI)
  assume m: "get_prop body ''message'' = Inr JUndefined"
  obtain n where n: "get_prop body ''maxTokens'' = Inr n"
    using get_prop_total [OF m] by blast
  obtain u where u: "get_prop body ''temperature'' = Inr u"
    using get_prop_total [OF m] by blast
  show "api_chat fetch body = Failed 500 TypeError"
    by (simp add: api_chat_def m n u)
next
  assume "parse message = None"
  then show "step parse c (Message message) = send [ErrorMsg SyntaxError] c"
    by (simp add: step_def on_message_def)
next
  assume "parse message = Some data" "get_prop data ''type'' = Inr JUndefined"
  then show "step parse c (Message message) = c"
    by (simp add: step_def on_message_def)
qed

theorem invalid_rejected_witness:
  \<open>api_chat example_fetch (JObject [(''maxTokens'', JNumber 10)]) = Failed 500 TypeError \<and>
   step example_parse streaming_connection (Message ''not json'') =
     send [ErrorMsg SyntaxError] streaming_connection \<and>
   step example_parse streaming_connection (Message ''{"message":"hi"}'') =
     streaming_connection\<close>
  using invalid_rejected
    [of "JObject [(''maxTokens'', JNumber 10)]" example_fetch example_parse "''not json''"
        streaming_connection JNull]
    invalid_rejected
    [of JNull example_fetch example_parse \<open>''{"message":"hi"}''\<close>
        streaming_connection \<open>JObject [(''message'', JString ''hi'')]\<close>]
  by (simp add: example_parse_simps)

text \<open>
  The claim as stated fails for a message on the persistent connection that lacks its
  \<^verbatim>\<open>type\<close>: no \<^verbatim>\<open>error\<close> message is sent, the connection is as it was.
\<close>

theorem missing_type_counterexample:
  \<open>step example_parse new_connection (Message ''{"message":"hi"}'') = new_connection \<and>
   outbox new_connection = [Info]\<close>
  by (simp add: step_def on_message_def example_parse_simps new_connection_def)

section \<open>The heartbeat\<close>

text \<open>
  C8 (amended). When the heartbeat timers fire on a registry that holds one open connection
  and one connection that is not open, exactly one ping is sent, to the open connection, and
  the registry and the timers are left as they were. A connection leaves the registry, and
  its timer is cancelled, when its \<^verbatim>\<open>close\<close> event is handled.
\<close>

theorem heartbeat_round_two:
  assumes "clients srv = [(a, wa), (b, wb)]"
    and "a \<noteq> b"
    and "heartbeats srv = [a, b]"
    and "readyState wa = OPEN"
    and "readyState wb \<noteq> OPEN"
  shows "clients (heartbeat_round srv) = [(a, send [Ping] wa), (b, wb)] \<and>
         pings_sent (heartbeat_round srv) = Suc (pings_sent srv) \<and>
         activeConnections (heartbeat_round srv) = activeConnections srv \<and>
         heartbeats (heartbeat_round srv) = heartbeats srv \<and>
         b \<notin> set (activeConnections (on_close b (heartbeat_round srv))) \<and>
         b \<notin> set (heartbeats (on_close b (heartbeat_round srv)))"
proof -
  have c: "clients (heartbeat_round srv) = [(a, send [Ping] wa), (b, wb)]"
    using assms by (simp add: heartbeat_round_def heartbeat_def modify_client_def)
  have p: "pings_sent (heartbeat_round srv) = Suc (pings_sent srv)"
    by (simp add: pings_sent_def c assms(1) pings_def send_def)
  have r: "activeConnections (heartbeat_round srv) = activeConnections srv \<and>
         heartbeats (heartbeat_round srv) = heartbeats srv"
    unfolding heartbeat_round_def by (rule fold_heartbeat_registry)
  have d: "b \<notin> set (activeConnections (on_close b (heartbeat_round srv))) \<and>
         b \<notin> set (heartbeats (on_close b (heartbeat_round srv)))"
    by (simp add: on_close_def)
  from c p r d show ?thesis by simp
qed

theorem heartbeat_round_two_witness:
  "pings_sent (heartbeat_round (example_server CLOSING)) = 1 \<and>
   activeConnections (heartbeat_round (example_server CLOSING)) = [''a'', ''b''] \<and>
   ''b'' \<notin> set (activeConnections (on_close ''b'' (heartbeat_round (example_server CLOSING))))"
proof -
  have c: "clients (example_server CLOSING) =
      [(''a'', new_connection), (''b'', new_connection\<lparr>readyState := CLOSING\<rparr>)]"
    by (rule example_server_simps)
  have n: "''a'' \<noteq> ''b''" by simp
  have h: "heartbeats (example_server CLOSING) = [''a'', ''b'']"
    by (rule example_server_simps)
  have a: "readyState new_connection = OPEN"
    by (simp add: new_connection_def)
  have b: "readyState (new_connection\<lparr>readyState := CLOSING\<rparr>) \<noteq> OPEN"
    by simp
  have p: "pings_sent (example_server CLOSING) = 0"
    by (simp add: pings_sent_def pings_def example_server_simps new_connection_def)
  have r: "activeConnections (example_server CLOSING) = [''a'', ''b'']"
    by (rule example_server_simps)
  from heartbeat_round_two [OF c n h a b] show ?thesis
    by (simp add: p r)
qed

text \<open>
  The claim as stated fails in its second half: the heartbeat sends its one ping and leaves the
  connection that is not open in the registry, be it closing or closed.
\<close>

theorem heartbeat_keeps_closed_counterexample:
  "pings_sent (heartbeat_round (example_server CLOSED)) = 1 \<and>
   activeConnections (heartbeat_round (example_server CLOSED)) = [''a'', ''b''] \<and>
   activeConnections (heartbeat_round (example_server CLOSING)) = [''a'', ''b'']"
  by (simp add: heartbeat_round_def heartbeat_def modify_client_def on_connection_def
      example_server_def new_connection_def pings_sent_def pings_def send_def)

section \<open>The HTTP API\<close>

text \<open>
  C7. \<^verbatim>\<open>POST /api/chat\<close> with the body \<^verbatim>\<open>{message:"hi", maxTokens:10,
  temperature:0.5}\<close>, when the completion endpoint answers the request built from it with
  \<^verbatim>\<open>{content:"hello", tokens_used:3}\<close>, returns \<^verbatim>\<open>{response:"hello",
  tokens_used:3}\<close>.
\<close>

theorem chat_example:
  assumes "fetch \<lparr>prompt = JString ''hi'', n_predict = JNumber 10,
                  temperature = JNumber (1 / 2), stream = False\<rparr> =
           Replied (Some (JObject [(''content'', JString ''hello''), (''tokens_used'', JNumber 3)]))"
  shows "api_chat fetch
           (JObject [(''message'', JString ''hi''), (''maxTokens'', JNumber 10),
                     (''temperature'', JNumber (1 / 2))]) =
         Json200 (JObject [(''response'', JString ''hello''), (''tokens_used'', JNumber 3)])"
  using assms by (simp add: api_chat_def default_to_def)

theorem chat_example_witness:
  "api_chat example_fetch
     (JObject [(''message'', JString ''hi''), (''maxTokens'', JNumber 10),
               (''temperature'', JNumber (1 / 2))]) =
   Json200 (JObject [(''response'', JString ''hello''), (''tokens_used'', JNumber 3)])"
  using chat_example [of example_fetch]
  by (simp add: example_fetch_def)

text \<open>
  C4. For a models directory whose files with a name ending in \<^verbatim>\<open>.gguf\<close> are exactly two,
  whatever other files it holds, \<^verbatim>\<open>GET /api/models\<close> returns exactly two entries, one for
  each, and the \<^verbatim>\<open>sizeMB\<close> of each is the size of the file in bytes divided by 1,048,576
  and rounded to the nearest integer.
\<close>

theorem models_two:
  assumes "readdirSync = Inr files"
    and "filter (ends_with ''.gguf'') files = [f1, f2]"
    and "statSync f1 = Inr s1"
    and "statSync f2 = Inr s2"
  shows "api_models True readdirSync statSync =
           Json200
             [\<lparr>name = f1, path = ''./../models/'' @ f1, size_bytes = s1,
               sizeMB = round (rat_of_nat s1 / 1048576)\<rparr>,
              \<lparr>name = f2, path = ''./../models/'' @ f2, size_bytes = s2,
               sizeMB = round (rat_of_nat s2 / 1048576)\<rparr>]"
proof -
  define sz where "sz = (\<lambda>f. if f = f1 then s1 else s2)"
  have mem: "\<forall>f \<in> set files. ends_with ''.gguf'' f \<longrightarrow> f = f1 \<or> f = f2"
  proof (intro ballI impI)
    fix f assume "f \<in> set files" "ends_with ''.gguf'' f"
    then have "f \<in> set (filter (ends_with ''.gguf'') files)" by simp
    then show "f = f1 \<or> f = f2" by (simp add: assms(2))
  qed
  have "\<forall>f \<in> set files. ends_with ''.gguf'' f \<longrightarrow> statSync f = Inr (sz f)"
    using mem assms(3,4) by (auto simp: sz_def)
  then have "collect_models statSync files =
     Inr (map (\<lambda>f. entry f (sz f)) (filter (ends_with ''.gguf'') files))"
    by (rule collect_models_filter)
  moreover have "sz f1 = s1" by (simp add: sz_def)
  moreover have "sz f2 = s2"
    using assms(3,4) by (auto simp: sz_def)
  ultimately show ?thesis
    by (simp add: api_models_def assms(1,2) entry_def Math_round_round)
qed

theorem models_two_witness:
  "api_models True (Inr example_files) example_stat =
     Json200
       [\<lparr>name = ''a.gguf'', path = ''./../models/a.gguf'', size_bytes = 1572864, sizeMB = 2\<rparr>,
        \<lparr>name = ''b.gguf'', path = ''./../models/b.gguf'', size_bytes = 3145828, sizeMB = 3\<rparr>]"
proof -
  have r: "round (3 / 2 :: rat) = 2" "round (786457 / 262144 :: rat) = 3"
    by (rule round_unique; simp)+
  show ?thesis
    using models_two
      [of "Inr example_files" example_files "''a.gguf''" "''b.gguf''" example_stat
          1572864 3145828]
    by (simp add: example_files_def example_stat_def ends_with_def r)
qed

text \<open>
  C5 (amended). When the models directory does not exist, the endpoint returns an empty list
  of models. When reading the directory throws, or getting the size of a model file does,
  the endpoint answers with status 500 and the message of an error caught, not with a list.
\<close>

theorem models_errors:
  "api_models False readdirSync statSync = Json200 [] \<and>
   (readdirSync = Inl e \<longrightarrow> api_models True readdirSync statSync = Failed 500 e) \<and>
   (readdirSync = Inr files \<longrightarrow> f \<in> set files \<longrightarrow> ends_with ''.gguf'' f \<longrightarrow>
      statSync f = Inl e \<longrightarrow>
      (\<exists>e'. api_models True readdirSync statSync = Failed 500 e'))"
proof (intro conjI impI)
  show "api_models False readdirSync statSync = Json200 []"
    by (simp add: api_models_def)
  show "api_models True readdirSync statSync = Failed 500 e" if "readdirSync = Inl e"
    using that by (simp add: api_models_def)
  show "\<exists>e'. api_models True readdirSync statSync = Failed 500 e'"
    if r: "readdirSync = Inr files" and m: "f \<in> set files" and g: "ends_with ''.gguf'' f"
      and s: "statSync f = Inl e"
  proof -
    obtain e' where "collect_models statSync files = Inl e'"
      using collect_models_error [of f files statSync e] m g s by blast
    then show ?thesis by (simp add: api_models_def r)
  qed
qed

theorem models_errors_witness:
  "api_models False (Inr [''c.gguf'']) example_stat = Json200 [] \<and>
   api_models True (Inl (IoError ''ENOTDIR'')) example_stat = Failed 500 (IoError ''ENOTDIR'') \<and>
   (\<exists>e'. api_models True (Inr [''c.gguf'']) example_stat = Failed 500 e')"
  using models_errors
    [of "Inr [''c.gguf'']" example_stat "IoError ''ENOENT''" "[''c.gguf'']" "''c.gguf''"]
    models_errors
    [of "Inl (IoError ''ENOTDIR'')" example_stat "IoError ''ENOTDIR''" "[]" "''c.gguf''"]
  by (simp add: example_stat_def ends_with_def)

text \<open>
  The claim as stated fails: when \<^verbatim>\<open>readdirSync\<close> throws, the answer is the status 500
  with the error, not an empty list of models.
\<close>

theorem models_io_error_counterexample:
  "api_models True (Inl (IoError ''EACCES'')) example_stat = Failed 500 (IoError ''EACCES'') \<and>
   api_models True (Inl (IoError ''EACCES'')) example_stat \<noteq> Json200 []"
  by (simp add: api_models_def)





end
